theory Spec2Isabelle
  imports Main
begin

section \<open>ServeMe: the data model of \<open>ServeMe.hpp\<close>\<close>

text \<open>
  Strings are byte lists. \<open>Level\<close> and \<open>Method\<close> are the source's enums;
  \<open>CACHE\<close> and \<open>endpoints\<close> are its unordered maps, keyed by strings (the cache by
  the method token of the request line, the endpoint table by the path).
\<close>

datatype Level = Debug | Info | Warning | Error | Critical

datatype Method = GET | POST

type_synonym CACHE = "string \<rightharpoonup> string"

type_synonym endpoints = "string \<rightharpoonup> (string \<times> Method)"

text \<open>
  The logger is a sink of (level, message) pairs; a function that logs returns the
  entries it appends, in order.
\<close>

type_synonym log_entry = "Level \<times> string"

text \<open>
  The file system is what \<open>std::ifstream\<close> sees at the moment of the call. A name
  either cannot be opened (\<open>None\<close>), or opens. A file that opens either yields its
  contents, or, like a directory, fails in the first read, where the stream buffer
  throws \<open>std::ios_base::failure\<close> with the given message. The source catches no
  exception between the read and \<open>RunServer\<close>, so a thrown exception is a result of
  each function on the way.
\<close>

datatype file_state = Contents string | ReadThrows string

type_synonym filesystem = "string \<rightharpoonup> file_state"

datatype cpp_exception = ios_base_failure string

fun what :: "cpp_exception \<Rightarrow> string" where
  "what (ios_base_failure msg) = msg"

text \<open>
  The outcome of an asynchronous operation, as its completion handler sees it: an error
  code with its message, or success with the data transferred.
\<close>

datatype 'a io_result = Failed string | Completed 'a

text \<open>
  The operations a session issues on its socket, in the order it issues them. What a
  session does is its list of socket operations, the shared cache as it leaves it, the
  entries it logs, and the exception, if any, that leaves its read handler.
\<close>

datatype socket_op = async_read_until | async_write string | shutdown_both

record session_result =
  socket_ops :: "socket_op list"
  cache_out :: CACHE
  log_out :: "log_entry list"
  thrown :: "cpp_exception option"

text \<open>
  Of \<open>HttpServer\<close>, the members that decide a response: \<open>endpoints_\<close> (here
  \<open>server_endpoints\<close>) and \<open>enable_cache\<close>. The cache is a reference to a map owned
  by the caller, so it is passed to the functions that use it and returned by them. A
  connection is what the outside world contributes to one session: the files at the
  moment its request is handled, and the outcomes of its read and of its write.
\<close>

record HttpServer =
  server_endpoints :: endpoints
  enable_cache :: bool

record connection =
  files :: filesystem
  read_result :: "string io_result"
  write_result :: "unit io_result"

section \<open>Templates\<close>

definition filePrefix :: string where
  "filePrefix = ''@file:''"

definition CRLF :: string where
  "CRLF = [CHR 0x0D, CHR 0x0A]"

definition digit :: "nat \<Rightarrow> char" where
  "digit d = ''0123456789'' ! d"

text \<open>\<open>std::to_string\<close> on a \<open>size_t\<close>: the decimal digits, most significant first.\<close>

fun to_string :: "nat \<Rightarrow> string" where
  "to_string n = (if n < 10 then [digit n] else to_string (n div 10) @ [digit (n mod 10)])"

declare to_string.simps [simp del]

definition OK :: "string \<Rightarrow> string \<Rightarrow> string" where
  "OK body content_type =
     ''HTTP/1.1 200 OK'' @ CRLF @ ''Content-Length: '' @ to_string (length body) @ CRLF
       @ ''Content-Type: '' @ content_type @ CRLF @ CRLF @ body"

definition OK_default_content_type :: string where
  "OK_default_content_type = ''text/html''"

definition NOT_OK :: "string \<Rightarrow> string" where
  "NOT_OK body = ''HTTP/1.1 404 Not Found'' @ CRLF @ ''Content-Length: 14'' @ CRLF @ CRLF @ body"

definition NOT_OK_default_body :: string where
  "NOT_OK_default_body = ''404 Not Found!''"

section \<open>Resolving a response source\<close>

definition readFileIntoString ::
  "filesystem \<Rightarrow> string \<Rightarrow> cpp_exception + string \<times> log_entry list" where
  "readFileIntoString fs filename =
     (case fs filename of
        None \<Rightarrow> Inr ('''', [(Error, ''Can not open file '' @ filename)])
      | Some (Contents content) \<Rightarrow> Inr (content, [])
      | Some (ReadThrows msg) \<Rightarrow> Inl (ios_base_failure msg))"

text \<open>
  \<open>str.substr(0, n)\<close> is \<open>take n str\<close> (it never throws), and \<open>str.substr(n)\<close> is
  \<open>drop n str\<close>: it is only reached when the first \<open>n\<close> bytes are the prefix, so
  \<open>n \<le> str.size()\<close> and it does not throw either.
\<close>

definition getBody :: "filesystem \<Rightarrow> string \<Rightarrow> cpp_exception + string \<times> log_entry list" where
  "getBody fs str =
     (if take (length filePrefix) str = filePrefix
      then readFileIntoString fs (drop (length filePrefix) str)
      else Inr (str, []))"

section \<open>The session\<close>

text \<open>
  \<open>std::getline\<close> takes the bytes before the first line feed; \<open>operator>>\<close> on a string
  skips white space of the C locale and takes the bytes up to the next white space. An
  extraction that finds nothing leaves the (empty) string empty.
\<close>

definition getline :: "string \<Rightarrow> string" where
  "getline buf = takeWhile (\<lambda>c. c \<noteq> CHR 0x0A) buf"

definition isspace :: "char \<Rightarrow> bool" where
  "isspace c = (c \<in> set [CHR '' '', CHR 0x09, CHR 0x0A, CHR 0x0B, CHR 0x0C, CHR 0x0D])"

definition read_token :: "string \<Rightarrow> string \<times> string" where
  "read_token s =
     (let t = dropWhile isspace s
      in (takeWhile (\<lambda>c. \<not> isspace c) t, dropWhile (\<lambda>c. \<not> isspace c) t))"

definition request_tokens :: "string \<Rightarrow> string \<times> string \<times> string" where
  "request_tokens request =
     (let (method, r1) = read_token (getline request);
          (path, r2) = read_token r1;
          (version, r3) = read_token r2
      in (method, path, version))"

text \<open>The session's reading of the method token: \<open>method == "GET" ? Method::GET : Method::POST\<close>.\<close>

definition request_method :: "string \<Rightarrow> Method" where
  "request_method method = (if method = ''GET'' then GET else POST)"

text \<open>\<open>cache.insert\<close> of \<open>std::unordered_map\<close> keeps an entry that is already there.\<close>

definition cache_insert :: "CACHE \<Rightarrow> string \<Rightarrow> string \<Rightarrow> CACHE" where
  "cache_insert cache k v = (case cache k of None \<Rightarrow> cache(k \<mapsto> v) | Some old \<Rightarrow> cache)"

text \<open>
  \<open>do_write\<close> starts the write; its completion handler shuts the socket down in both
  directions on success and logs on failure. The result lists the socket operations and
  the handler's log entries. The bytes written are taken to be the string handed to
  \<open>do_write\<close>.
\<close>

definition do_write :: "string \<Rightarrow> unit io_result \<Rightarrow> socket_op list \<times> log_entry list" where
  "do_write response wr =
     (case wr of
        Completed u \<Rightarrow> ([async_write response, shutdown_both], [])
      | Failed msg \<Rightarrow>
          ([async_write response],
           [(Error, ''Internal boost error of code '' @ msg @ ''; Stopping the server.'')]))"

text \<open>
  \<open>do_read\<close> starts the read; its completion handler parses the request line, routes,
  and calls \<open>do_write\<close> once on each routed branch. The logger is called after
  \<open>do_write\<close> has started the write and before the write's handler runs. The
  session's members \<open>endpoints_\<close> and \<open>enable_cache\<close> are the arguments \<open>eps\<close>
  and \<open>enable\<close>; \<open>cache[method]\<close> is only evaluated where the key is present.
  When \<open>getBody\<close> throws, the handler is left at once: nothing is written, logged or
  cached by it.
\<close>

definition do_read ::
  "endpoints \<Rightarrow> bool \<Rightarrow> filesystem \<Rightarrow> CACHE \<Rightarrow> string io_result \<Rightarrow> unit io_result \<Rightarrow> session_result" where
  "do_read eps enable fs cache rd wr =
     (case rd of
        Failed msg \<Rightarrow>
          \<lparr>socket_ops = [async_read_until], cache_out = cache,
           log_out = [(Error, ''Internal error in do_read() function: '' @ msg)],
           thrown = None\<rparr>
      | Completed request \<Rightarrow>
          (case request_tokens request of (method, path, version) \<Rightarrow>
             (let it = eps path in
              if it \<noteq> None \<and> request_method method = snd (the it) then
                (if enable \<and> cache method \<noteq> None then
                   (let (w, wl) = do_write (the (cache method)) wr
                    in \<lparr>socket_ops = async_read_until # w, cache_out = cache,
                        log_out = [(Info, ''Endpoint '' @ path @ '' of type '' @ method @ '' responsing...'')] @ wl,
                        thrown = None\<rparr>)
                 else
                   (case getBody fs (fst (the it)) of
                      Inl e \<Rightarrow>
                        \<lparr>socket_ops = [async_read_until], cache_out = cache, log_out = [],
                         thrown = Some e\<rparr>
                    | Inr (body, bl) \<Rightarrow>
                        (let response = OK body OK_default_content_type;
                             (w, wl) = do_write response wr
                         in \<lparr>socket_ops = async_read_until # w,
                             cache_out = (if enable then cache_insert cache method response else cache),
                             log_out = bl @ [(Info, ''Endpoint '' @ path @ '' of type '' @ method @ '' responsing...'')] @ wl,
                             thrown = None\<rparr>)))
              else
                (let (w, wl) = do_write (NOT_OK NOT_OK_default_body) wr
                 in \<lparr>socket_ops = async_read_until # w, cache_out = cache,
                     log_out = [(Error, ''No endpoint with name '' @ path @ '' and method '' @ method)] @ wl,
                     thrown = None\<rparr>))))"

text \<open>The bytes a session hands to \<open>async_write\<close>.\<close>

fun written :: "socket_op list \<Rightarrow> string list" where
  "written [] = []"
| "written (async_write r # ops) = r # written ops"
| "written (op # ops) = written ops"

section \<open>The server\<close>

definition addEndpoint :: "string \<Rightarrow> string \<Rightarrow> Method \<Rightarrow> HttpServer \<Rightarrow> HttpServer" where
  "addEndpoint path response method srv =
     srv\<lparr>server_endpoints := (server_endpoints srv)(path \<mapsto> (response, method))\<rparr>"

text \<open>\<open>RESTAPIAPP::AddEndpoint\<close> takes the method as a string.\<close>

definition AddEndpoint :: "string \<Rightarrow> string \<Rightarrow> string \<Rightarrow> HttpServer \<Rightarrow> HttpServer" where
  "AddEndpoint path response method srv =
     addEndpoint path response (if method = ''GET'' then GET else POST) srv"

text \<open>
  \<open>RESTAPIAPP\<close> builds its server with no endpoints, caching enabled (the constructor's
  default) and an empty cache.
\<close>

definition RESTAPIAPP :: HttpServer where
  "RESTAPIAPP = \<lparr>server_endpoints = Map.empty, enable_cache = True\<rparr>"

text \<open>
  The sessions that \<open>do_accept\<close> spawns share the server's cache. Their read handlers
  run one at a time on the thread of \<open>io_context.run()\<close>; the list gives the
  connections in the order in which those handlers run. An exception that leaves a
  handler leaves \<open>io_context.run()\<close> too, so the connections after it are not served.
\<close>

fun run_sessions :: "HttpServer \<Rightarrow> CACHE \<Rightarrow> connection list \<Rightarrow> session_result list \<times> CACHE" where
  "run_sessions srv cache [] = ([], cache)"
| "run_sessions srv cache (c # cs) =
     (let r = do_read (server_endpoints srv) (enable_cache srv) (files c) cache (read_result c) (write_result c);
          (rs, cache') = (if thrown r = None then run_sessions srv (cache_out r) cs else ([], cache_out r))
      in (r # rs, cache'))"

text \<open>
  \<open>RunServer\<close> calls \<open>io_context.run()\<close> and catches what leaves it: it logs the
  exception at level \<open>Critical\<close> and returns. When the run returns without one (the
  server was stopped after the connections listed) it logs at level \<open>Info\<close>.
\<close>

definition RunServer ::
  "HttpServer \<Rightarrow> CACHE \<Rightarrow> connection list \<Rightarrow> session_result list \<times> CACHE \<times> log_entry list" where
  "RunServer srv cache cs =
     (let (rs, cache') = run_sessions srv cache cs
      in (rs, cache',
          (case (if rs = [] then None else thrown (last rs)) of
             Some e \<Rightarrow> [(Critical, ''Failed to run the server; '' @ what e)]
           | None \<Rightarrow> [(Info, ''Server starting'')])))"

section \<open>Properties\<close>

subsection \<open>The branches of the read handler\<close>

lemma written_do_write: "written (fst (do_write r wr)) = [r]"
  by (cases wr) (simp_all add: do_write_def)

lemma do_read_Failed:
  "do_read eps enable fs cache (Failed msg) wr =
     \<lparr>socket_ops = [async_read_until], cache_out = cache,
      log_out = [(Error, ''Internal error in do_read() function: '' @ msg)],
      thrown = None\<rparr>"
  by (simp add: do_read_def)

lemma do_read_not_found:
  assumes "request_tokens request = (method, path, version)"
    and "eps path = None \<or> (\<exists>src m. eps path = Some (src, m) \<and> request_method method \<noteq> m)"
  shows "do_read eps enable fs cache (Completed request) wr =
     \<lparr>socket_ops = async_read_until # fst (do_write (NOT_OK NOT_OK_default_body) wr),
      cache_out = cache,
      log_out = (Error, ''No endpoint with name '' @ path @ '' and method '' @ method)
                  # snd (do_write (NOT_OK NOT_OK_default_body) wr),
      thrown = None\<rparr>"
  using assms by (auto simp add: do_read_def Let_def split: prod.splits)

lemma do_read_hit:
  assumes "request_tokens request = (method, path, version)"
    and "eps path = Some (src, request_method method)"
    and "enable" and "cache method = Some cached"
  shows "do_read eps enable fs cache (Completed request) wr =
     \<lparr>socket_ops = async_read_until # fst (do_write cached wr),
      cache_out = cache,
      log_out = (Info, ''Endpoint '' @ path @ '' of type '' @ method @ '' responsing...'')
                  # snd (do_write cached wr),
      thrown = None\<rparr>"
  using assms by (simp add: do_read_def Let_def split: prod.splits)

lemma do_read_miss:
  assumes "request_tokens request = (method, path, version)"
    and "eps path = Some (src, request_method method)"
    and "enable \<longrightarrow> cache method = None"
    and "getBody fs src = Inr (body, bl)"
  shows "do_read eps enable fs cache (Completed request) wr =
     \<lparr>socket_ops = async_read_until # fst (do_write (OK body OK_default_content_type) wr),
      cache_out = (if enable then cache(method \<mapsto> OK body OK_default_content_type) else cache),
      log_out = bl
        @ (Info, ''Endpoint '' @ path @ '' of type '' @ method @ '' responsing...'')
        # snd (do_write (OK body OK_default_content_type) wr),
      thrown = None\<rparr>"
  using assms by (auto simp add: do_read_def Let_def cache_insert_def split: prod.splits)

lemma do_read_throws:
  assumes "request_tokens request = (method, path, version)"
    and "eps path = Some (src, request_method method)"
    and "enable \<longrightarrow> cache method = None"
    and "getBody fs src = Inl e"
  shows "do_read eps enable fs cache (Completed request) wr =
     \<lparr>socket_ops = [async_read_until], cache_out = cache, log_out = [], thrown = Some e\<rparr>"
  using assms by (auto simp add: do_read_def Let_def split: prod.splits)

lemmas parse_defs = request_tokens_def read_token_def getline_def isspace_def CRLF_def

lemmas app_defs = AddEndpoint_def addEndpoint_def RESTAPIAPP_def

lemma do_read_cases [consumes 1, case_names not_found hit miss throws]:
  assumes tok: "request_tokens request = (method, path, version)"
  obtains
    "eps path = None \<or> (\<exists>src m. eps path = Some (src, m) \<and> request_method method \<noteq> m)"
  | src cached where "eps path = Some (src, request_method method)" and "enable"
      and "cache method = Some cached"
  | src body bl where "eps path = Some (src, request_method method)"
      and "enable \<longrightarrow> cache method = None" and "getBody fs src = Inr (body, bl)"
  | src e where "eps path = Some (src, request_method method)"
      and "enable \<longrightarrow> cache method = None" and "getBody fs src = Inl e"
proof (cases "eps path")
  case None
  then show ?thesis
    using that(1) by simp
next
  case (Some ep)
  obtain src m where ep: "ep = (src, m)"
    by (cases ep)
  show ?thesis
  proof (cases "request_method method = m")
    case False
    with Some ep show ?thesis
      using that(1) by simp
  next
    case True
    with Some ep have reg: "eps path = Some (src, request_method method)"
      by simp
    show ?thesis
    proof (cases "enable \<and> cache method \<noteq> None")
      case True
      with reg show ?thesis
        using that(2) by auto
    next
      case False
      then have miss: "enable \<longrightarrow> cache method = None"
        by simp
      show ?thesis
      proof (cases "getBody fs src")
        case (Inl e)
        with reg miss show ?thesis
          using that(4) by blast
      next
        case (Inr res)
        obtain body bl where "res = (body, bl)"
          by (cases res)
        with Inr reg miss show ?thesis
          using that(3) by blast
      qed
    qed
  qed
qed

subsection \<open>Well-formed request lines\<close>

lemma read_token_word:
  assumes "w \<noteq> []" and "\<forall>c\<in>set w. \<not> isspace c" and "isspace s"
  shows "read_token (w @ s # rest) = (w, s # rest)"
proof -
  from assms(1,2) have "dropWhile isspace (w @ s # rest) = w @ s # rest"
    by (cases w) simp_all
  moreover from assms(2,3) have "takeWhile (\<lambda>c. \<not> isspace c) (w @ s # rest) = w"
    by (simp add: takeWhile_append2)
  moreover from assms(2,3) have "dropWhile (\<lambda>c. \<not> isspace c) (w @ s # rest) = s # rest"
    by (simp add: dropWhile_append2)
  ultimately show ?thesis
    by (simp add: read_token_def)
qed

lemma read_token_skip: "isspace s \<Longrightarrow> read_token (s # rest) = read_token rest"
  by (simp add: read_token_def)

lemma request_line_tokens:
  assumes "tk \<noteq> []" and "\<forall>c\<in>set tk. \<not> isspace c"
    and "pth \<noteq> []" and "\<forall>c\<in>set pth. \<not> isspace c"
  shows "request_tokens (tk @ '' '' @ pth @ '' HTTP/1.1'' @ CRLF @ rest) = (tk, pth, ''HTTP/1.1'')"
proof -
  have sp: "isspace CHR '' ''" and lf: "isspace (CHR 0x0A)" and cr: "isspace (CHR 0x0D)"
    by (simp_all add: isspace_def)
  from assms(2) lf have tk: "\<forall>c\<in>set tk. c \<noteq> CHR 0x0A"
    by blast
  from assms(4) lf have pth: "\<forall>c\<in>set pth. c \<noteq> CHR 0x0A"
    by blast
  have "getline (tk @ '' '' @ pth @ '' HTTP/1.1'' @ CRLF @ rest)
      = tk @ CHR '' '' # (pth @ CHR '' '' # ''HTTP/1.1'' @ [CHR 0x0D])"
    using tk pth by (simp add: getline_def CRLF_def takeWhile_append2)
  moreover have "read_token (tk @ CHR '' '' # (pth @ CHR '' '' # ''HTTP/1.1'' @ [CHR 0x0D]))
      = (tk, CHR '' '' # (pth @ CHR '' '' # ''HTTP/1.1'' @ [CHR 0x0D]))"
    by (rule read_token_word [OF assms(1,2) sp])
  moreover have "read_token (CHR '' '' # (pth @ CHR '' '' # ''HTTP/1.1'' @ [CHR 0x0D]))
      = (pth, CHR '' '' # ''HTTP/1.1'' @ [CHR 0x0D])"
    by (simp only: read_token_skip [OF sp] read_token_word [OF assms(3,4) sp])
  moreover have "read_token (CHR '' '' # ''HTTP/1.1'' @ [CHR 0x0D]) = (''HTTP/1.1'', [CHR 0x0D])"
    by (simp add: read_token_def isspace_def)
  ultimately show ?thesis
    by (simp add: request_tokens_def)
qed

subsection \<open>The not-found response\<close>

lemma OK_neq_NOT_OK: "OK body content_type \<noteq> NOT_OK body'"
  by (simp add: OK_def NOT_OK_def)

text \<open>
  The not-found response is written on the else branch of the read handler, that is,
  when the path is not registered or the method that the session reads from the token
  differs from the registered one. Its header carries the literal
  \<open>Content-Length: 14\<close> for every body the template is given.
\<close>

lemma not_found_response:
  assumes "request_tokens request = (method, path, version)"
    and "eps path = None \<or> (\<exists>src m. eps path = Some (src, m) \<and> request_method method \<noteq> m)"
  shows "written (socket_ops (do_read eps enable fs cache (Completed request) wr))
           = [NOT_OK NOT_OK_default_body]
       \<and> NOT_OK NOT_OK_default_body
           = ''HTTP/1.1 404 Not Found'' @ CRLF @ ''Content-Length: 14'' @ CRLF @ CRLF
               @ ''404 Not Found!''
       \<and> (\<forall>body. NOT_OK body
           = ''HTTP/1.1 404 Not Found'' @ CRLF @ ''Content-Length: 14'' @ CRLF @ CRLF @ body)"
proof -
  have "written (socket_ops (do_read eps enable fs cache (Completed request) wr))
          = [NOT_OK NOT_OK_default_body]"
    by (simp add: do_read_not_found [where eps = eps and path = path, OF assms] written_do_write)
  then show ?thesis
    by (simp add: NOT_OK_def NOT_OK_default_body_def)
qed

text \<open>
  Claim C10. The default not-found body has 14 bytes, so the response that the session
  writes on the not-found branch states the true length of its body.
\<close>

theorem default_not_found_length:
  assumes "request_tokens request = (method, path, version)"
    and "eps path = None \<or> (\<exists>src m. eps path = Some (src, m) \<and> request_method method \<noteq> m)"
  shows "length NOT_OK_default_body = 14
       \<and> written (socket_ops (do_read eps enable fs cache (Completed request) wr))
           = [''HTTP/1.1 404 Not Found'' @ CRLF @ ''Content-Length: ''
                @ to_string (length NOT_OK_default_body) @ CRLF @ CRLF @ NOT_OK_default_body]"
proof -
  have len: "length NOT_OK_default_body = 14"
    by (simp add: NOT_OK_default_body_def)
  have "to_string 14 = ''14''"
    by (simp add: to_string.simps digit_def)
  with len have "NOT_OK NOT_OK_default_body
      = ''HTTP/1.1 404 Not Found'' @ CRLF @ ''Content-Length: ''
          @ to_string (length NOT_OK_default_body) @ CRLF @ CRLF @ NOT_OK_default_body"
    by (simp add: NOT_OK_def)
  with len show ?thesis
    by (simp add: do_read_not_found [where eps = eps and path = path, OF assms] written_do_write)
qed

theorem default_not_found_length_witness:
  "request_tokens (''GET /nowhere HTTP/1.1'' @ CRLF @ CRLF) = (''GET'', ''/nowhere'', ''HTTP/1.1'')
   \<and> server_endpoints (AddEndpoint ''/data'' ''Some data!'' ''GET'' RESTAPIAPP) ''/nowhere'' = None
   \<and> length NOT_OK_default_body = 14
   \<and> written (socket_ops (do_read
         (server_endpoints (AddEndpoint ''/data'' ''Some data!'' ''GET'' RESTAPIAPP)) True
         Map.empty Map.empty (Completed (''GET /nowhere HTTP/1.1'' @ CRLF @ CRLF)) (Completed ())))
       = [''HTTP/1.1 404 Not Found'' @ CRLF @ ''Content-Length: 14'' @ CRLF @ CRLF
            @ ''404 Not Found!'']"
proof -
  have tok: "request_tokens (''GET /nowhere HTTP/1.1'' @ CRLF @ CRLF)
               = (''GET'', ''/nowhere'', ''HTTP/1.1'')"
    by (simp add: parse_defs)
  have reg: "server_endpoints (AddEndpoint ''/data'' ''Some data!'' ''GET'' RESTAPIAPP) ''/nowhere'' = None"
    by (simp add: app_defs)
  have "to_string (length ''404 Not Found!'') = ''14''"
    by code_simp
  with default_not_found_length [where eps = "server_endpoints (AddEndpoint ''/data'' ''Some data!'' ''GET'' RESTAPIAPP)"
      and path = "''/nowhere''" and enable = True and fs = Map.empty and cache = Map.empty
      and wr = "Completed ()", OF tok disjI1 [OF reg]] tok reg show ?thesis
    by (simp add: NOT_OK_default_body_def)
qed

subsection \<open>Method tokens other than GET and POST\<close>

lemma request_method_other: "method \<noteq> ''GET'' \<Longrightarrow> request_method method = POST"
  by (simp add: request_method_def)

lemma other_token_served:
  assumes "tk \<noteq> ''GET''" and "tk \<noteq> []" and "\<forall>c\<in>set tk. \<not> isspace c"
    and "pth \<noteq> []" and "\<forall>c\<in>set pth. \<not> isspace c"
    and "eps pth = Some (src, POST)"
    and "enable \<longrightarrow> cache tk = None"
    and "getBody fs src = Inr (body, bl)"
  shows "written (socket_ops (do_read eps enable fs cache
           (Completed (tk @ '' '' @ pth @ '' HTTP/1.1'' @ CRLF @ CRLF)) wr))
         = [OK body ''text/html'']"
proof -
  have tok: "request_tokens (tk @ '' '' @ pth @ '' HTTP/1.1'' @ CRLF @ CRLF) = (tk, pth, ''HTTP/1.1'')"
    by (rule request_line_tokens [OF assms(2,3,4,5)])
  from assms(1,6) have reg: "eps pth = Some (src, request_method tk)"
    by (simp add: request_method_other)
  show ?thesis
    unfolding do_read_miss [where eps = eps and path = pth and cache = cache and enable = enable,
        OF tok reg assms(7,8)]
    by (simp add: written_do_write OK_default_content_type_def)
qed

text \<open>
  Claim C2. The claim asks for the not-found response for every method token other
  than \<open>GET\<close> and \<open>POST\<close>. The session reads every token other than \<open>GET\<close> as
  \<open>POST\<close>, so a \<open>DELETE\<close> request for a path registered with \<open>POST\<close> (the
  \<open>/submit\<close> endpoint of the usage example) is answered with status 200 and the
  endpoint's body.
\<close>

theorem delete_answered_as_post:
  "written (socket_ops (do_read
       (server_endpoints (AddEndpoint ''/submit'' ''Submitted!'' ''POST'' RESTAPIAPP))
       (enable_cache (AddEndpoint ''/submit'' ''Submitted!'' ''POST'' RESTAPIAPP))
       Map.empty Map.empty (Completed (''DELETE /submit HTTP/1.1'' @ CRLF @ CRLF)) (Completed ())))
     = [''HTTP/1.1 200 OK'' @ CRLF @ ''Content-Length: 10'' @ CRLF
          @ ''Content-Type: text/html'' @ CRLF @ CRLF @ ''Submitted!'']"
proof -
  let ?srv = "AddEndpoint ''/submit'' ''Submitted!'' ''POST'' RESTAPIAPP"
  have tok: "request_tokens (''DELETE /submit HTTP/1.1'' @ CRLF @ CRLF)
      = (''DELETE'', ''/submit'', ''HTTP/1.1'')"
    by (simp add: parse_defs)
  have reg: "server_endpoints ?srv ''/submit'' = Some (''Submitted!'', request_method ''DELETE'')"
    by (simp add: app_defs request_method_def)
  have miss: "enable_cache ?srv \<longrightarrow> (Map.empty :: CACHE) ''DELETE'' = None"
    by simp
  have body: "getBody Map.empty ''Submitted!'' = Inr (''Submitted!'', [])"
    by (simp add: getBody_def filePrefix_def)
  have len: "to_string (length ''Submitted!'') = ''10''"
    by code_simp
  show ?thesis
    unfolding do_read_miss [where eps = "server_endpoints ?srv" and path = "''/submit''"
        and cache = Map.empty and enable = "enable_cache ?srv", OF tok reg miss body]
    using len by (simp add: written_do_write OK_def OK_default_content_type_def)
qed

text \<open>
  Claim C4. The claim asks for the not-found response whenever the method of the
  request disagrees with the method registered for the path. A \<open>PUT\<close> request for a
  path registered with \<open>POST\<close> disagrees with it, yet the session, which reads every
  token other than \<open>GET\<close> as \<open>POST\<close>, answers it with status 200 and the
  endpoint's body, not with the not-found response.
\<close>

theorem put_not_refused:
  "written (socket_ops (do_read
       (server_endpoints (AddEndpoint ''/submit'' ''Submitted!'' ''POST'' RESTAPIAPP))
       (enable_cache (AddEndpoint ''/submit'' ''Submitted!'' ''POST'' RESTAPIAPP))
       Map.empty Map.empty (Completed (''PUT /submit HTTP/1.1'' @ CRLF @ CRLF)) (Completed ())))
     = [OK ''Submitted!'' ''text/html'']
   \<and> OK ''Submitted!'' ''text/html'' \<noteq> NOT_OK NOT_OK_default_body
   \<and> server_endpoints (AddEndpoint ''/submit'' ''Submitted!'' ''POST'' RESTAPIAPP) ''/submit''
       = Some (''Submitted!'', POST)"
proof -
  let ?srv = "AddEndpoint ''/submit'' ''Submitted!'' ''POST'' RESTAPIAPP"
  have "(''PUT'' :: string) \<noteq> ''GET''" and "(''PUT'' :: string) \<noteq> []"
    and "\<forall>c\<in>set ''PUT''. \<not> isspace c"
    and "(''/submit'' :: string) \<noteq> []" and "\<forall>c\<in>set ''/submit''. \<not> isspace c"
    by (simp_all add: isspace_def)
  moreover have reg: "server_endpoints ?srv ''/submit'' = Some (''Submitted!'', POST)"
    by (simp add: app_defs)
  moreover have "enable_cache ?srv \<longrightarrow> (Map.empty :: CACHE) ''PUT'' = None"
    by simp
  moreover have "getBody Map.empty ''Submitted!'' = Inr (''Submitted!'', [])"
    by (simp add: getBody_def filePrefix_def)
  ultimately have "written (socket_ops (do_read (server_endpoints ?srv) (enable_cache ?srv)
       Map.empty Map.empty (Completed (''PUT'' @ '' '' @ ''/submit'' @ '' HTTP/1.1'' @ CRLF @ CRLF))
       (Completed ())))
     = [OK ''Submitted!'' ''text/html'']"
    by (rule other_token_served)
  then have "written (socket_ops (do_read (server_endpoints ?srv) (enable_cache ?srv)
       Map.empty Map.empty (Completed (''PUT /submit HTTP/1.1'' @ CRLF @ CRLF)) (Completed ())))
     = [OK ''Submitted!'' ''text/html'']"
    by simp
  with reg show ?thesis
    by (simp add: OK_neq_NOT_OK)
qed

subsection \<open>Resolving the body\<close>

lemma getBody_file:
  "getBody fs (filePrefix @ fname) = readFileIntoString fs fname"
  by (simp add: getBody_def)

lemma getBody_literal:
  assumes "\<forall>name. src \<noteq> filePrefix @ name"
  shows "getBody fs src = Inr (src, [])"
proof -
  have "take (length filePrefix) src \<noteq> filePrefix"
  proof
    assume "take (length filePrefix) src = filePrefix"
    then have "src = filePrefix @ drop (length filePrefix) src"
      by (metis append_take_drop_id)
    with assms show False
      by blast
  qed
  then show ?thesis
    by (simp add: getBody_def)
qed

text \<open>
  The outcomes of resolving a source. A source that begins with the file marker
  \<open>@file:\<close> is resolved by reading the file named by the rest, in the file system of
  the moment of the request: the body is the file's contents; when the file cannot be
  opened it is the empty string, with an \<open>Error\<close> entry in the log; when the file opens
  and the read fails, there is no body: the exception leaves \<open>getBody\<close>. Any other
  source is its own body.
\<close>

lemma getBody_outcomes:
  "(fs fname = Some (Contents content) \<longrightarrow> getBody fs (filePrefix @ fname) = Inr (content, []))
   \<and> (fs fname = None \<longrightarrow>
        getBody fs (filePrefix @ fname) = Inr ('''', [(Error, ''Can not open file '' @ fname)]))
   \<and> (fs fname = Some (ReadThrows msg) \<longrightarrow>
        getBody fs (filePrefix @ fname) = Inl (ios_base_failure msg))
   \<and> ((\<forall>name. src \<noteq> filePrefix @ name) \<longrightarrow> getBody fs src = Inr (src, []))"
  by (simp add: getBody_file readFileIntoString_def getBody_literal)

lemma to_string_0: "to_string 0 = ''0''"
  by (simp add: to_string.simps digit_def)

lemma unopenable_file_empty_body:
  assumes tok: "request_tokens request = (method, path, version)"
    and reg: "eps path = Some (filePrefix @ fname, request_method method)"
    and miss: "enable \<longrightarrow> cache method = None"
    and "fs fname = None"
  shows "written (socket_ops (do_read eps enable fs cache (Completed request) wr))
          = [''HTTP/1.1 200 OK'' @ CRLF @ ''Content-Length: 0'' @ CRLF
               @ ''Content-Type: text/html'' @ CRLF @ CRLF]
       \<and> (Error, ''Can not open file '' @ fname)
              \<in> set (log_out (do_read eps enable fs cache (Completed request) wr))"
proof -
  from assms(4)
  have body: "getBody fs (filePrefix @ fname) = Inr ('''', [(Error, ''Can not open file '' @ fname)])"
    by (simp add: getBody_file readFileIntoString_def)
  note r = do_read_miss [where eps = eps and path = path and cache = cache and enable = enable,
      OF tok reg miss body, of wr]
  show ?thesis
    by (simp add: r written_do_write OK_def OK_default_content_type_def to_string_0)
qed

subsection \<open>The success response\<close>

text \<open>
  With caching disabled, a request for a registered path whose method agrees with the
  registered one, and whose source resolves to a body, is answered with status 200, a
  \<open>Content-Length\<close> that is the decimal length of the body, and the default content
  type \<open>text/html\<close> (the session never passes another one to the template).
\<close>

lemma ok_response_uncached:
  assumes "request_tokens request = (method, path, version)"
    and "eps path = Some (src, m)"
    and "request_method method = m"
    and "getBody fs src = Inr (body, bl)"
  shows "written (socket_ops (do_read eps False fs cache (Completed request) wr))
           = [''HTTP/1.1 200 OK'' @ CRLF @ ''Content-Length: ''
                @ to_string (length body) @ CRLF
                @ ''Content-Type: text/html'' @ CRLF @ CRLF @ body]"
proof -
  from assms have reg: "eps path = Some (src, request_method method)"
    by simp
  have "False \<longrightarrow> cache method = None"
    by simp
  from do_read_miss [where eps = eps and path = path and cache = cache and enable = False,
      OF assms(1) reg this assms(4)]
  show ?thesis
    by (simp add: written_do_write OK_def OK_default_content_type_def)
qed

text \<open>
  Claim C5. The claim asks for a 200 response for every registered pair. An endpoint
  whose source names a file that opens and cannot be read (a directory) is a registered
  pair; with caching disabled, a matching request for it makes \<open>getBody\<close> throw in the
  read handler, which writes no response at all: the session's only socket operation is
  its read.
\<close>

theorem unreadable_source_no_response:
  "do_read [''/page'' \<mapsto> (''@file:/var/www'', GET)] False [''/var/www'' \<mapsto> ReadThrows msg]
       Map.empty (Completed (''GET /page HTTP/1.1'' @ CRLF @ CRLF)) (Completed ())
     = \<lparr>socket_ops = [async_read_until], cache_out = Map.empty, log_out = [],
        thrown = Some (ios_base_failure msg)\<rparr>
   \<and> written [async_read_until] = []"
proof -
  have tok: "request_tokens (''GET /page HTTP/1.1'' @ CRLF @ CRLF) = (''GET'', ''/page'', ''HTTP/1.1'')"
    by (simp add: parse_defs)
  have reg: "[''/page'' \<mapsto> (''@file:/var/www'', GET)] ''/page''
      = Some (''@file:/var/www'', request_method ''GET'')"
    by (simp add: request_method_def)
  have miss: "False \<longrightarrow> (Map.empty :: CACHE) ''GET'' = None"
    by simp
  have body: "getBody [''/var/www'' \<mapsto> ReadThrows msg] ''@file:/var/www'' = Inl (ios_base_failure msg)"
    by (simp add: getBody_def filePrefix_def readFileIntoString_def)
  show ?thesis
    unfolding do_read_throws [where eps = "[''/page'' \<mapsto> (''@file:/var/www'', GET)]"
        and path = "''/page''" and cache = Map.empty and enable = False, OF tok reg miss body]
    by simp
qed

text \<open>
  Claim C6. The claim gives two outcomes for a source with the file marker: the file's
  contents, or, when the file cannot be opened, an \<open>Error\<close> entry, the empty body and
  still a 200 response. A source that names a directory has neither: the file opens,
  the read throws, and the exception leaves \<open>getBody\<close> and the read handler with no
  body, no \<open>Error\<close> entry and nothing written; it is caught in \<open>RunServer\<close>, which
  logs it at level \<open>Critical\<close> and returns, so the next connection is not served.
\<close>

theorem directory_source_stops_server:
  "getBody [''/var/www'' \<mapsto> ReadThrows msg] (filePrefix @ ''/var/www'') = Inl (ios_base_failure msg)
   \<and> RunServer (AddEndpoint ''/page'' (filePrefix @ ''/var/www'') ''GET'' RESTAPIAPP) Map.empty
        [\<lparr>files = [''/var/www'' \<mapsto> ReadThrows msg],
           read_result = Completed (''GET /page HTTP/1.1'' @ CRLF @ CRLF),
           write_result = Completed ()\<rparr>,
         \<lparr>files = [''/var/www'' \<mapsto> ReadThrows msg],
           read_result = Completed (''GET /page HTTP/1.1'' @ CRLF @ CRLF),
           write_result = Completed ()\<rparr>]
     = ([\<lparr>socket_ops = [async_read_until], cache_out = Map.empty, log_out = [],
           thrown = Some (ios_base_failure msg)\<rparr>],
        Map.empty,
        [(Critical, ''Failed to run the server; '' @ msg)])"
proof -
  let ?srv = "AddEndpoint ''/page'' (filePrefix @ ''/var/www'') ''GET'' RESTAPIAPP"
  let ?fs = "[''/var/www'' \<mapsto> ReadThrows msg]"
  have body: "getBody ?fs (filePrefix @ ''/var/www'') = Inl (ios_base_failure msg)"
    by (simp add: getBody_file readFileIntoString_def)
  have tok: "request_tokens (''GET /page HTTP/1.1'' @ CRLF @ CRLF) = (''GET'', ''/page'', ''HTTP/1.1'')"
    by (simp add: parse_defs)
  have reg: "server_endpoints ?srv ''/page'' = Some (filePrefix @ ''/var/www'', request_method ''GET'')"
    by (simp add: app_defs request_method_def)
  have miss: "enable_cache ?srv \<longrightarrow> (Map.empty :: CACHE) ''GET'' = None"
    by simp
  note r = do_read_throws [where eps = "server_endpoints ?srv" and path = "''/page''"
      and cache = Map.empty and enable = "enable_cache ?srv" and fs = ?fs
      and wr = "Completed ()", OF tok reg miss body]
  have "RunServer ?srv Map.empty
        [\<lparr>files = ?fs, read_result = Completed (''GET /page HTTP/1.1'' @ CRLF @ CRLF),
           write_result = Completed ()\<rparr>,
         \<lparr>files = ?fs, read_result = Completed (''GET /page HTTP/1.1'' @ CRLF @ CRLF),
           write_result = Completed ()\<rparr>]
     = ([\<lparr>socket_ops = [async_read_until], cache_out = Map.empty, log_out = [],
           thrown = Some (ios_base_failure msg)\<rparr>],
        Map.empty,
        [(Critical, ''Failed to run the server; '' @ msg)])"
    unfolding RunServer_def run_sessions.simps connection.simps r
    by (simp add: Let_def)
  with body show ?thesis
    by blast
qed

subsection \<open>Registration\<close>

lemma addEndpoint_twice:
  "addEndpoint path r2 m2 (addEndpoint path r1 m1 srv) = addEndpoint path r2 m2 srv"
  by (simp add: addEndpoint_def)

text \<open>
  Claim C7. Registering a path again replaces its response source and its method: the
  table then holds only the latest pair for the path, and the server is the one that
  the latest registration alone would have produced, so every session that runs
  afterwards behaves as if the earlier registration had never been made. A later
  request for the path whose method agrees with the latest registration is answered,
  when it is not served from the cache, with the body of the latest source; one whose method
  differs from the latest registration is answered with the not-found response. The
  same overwrite holds for registration through \<open>RESTAPIAPP::AddEndpoint\<close>.
\<close>

theorem addEndpoint_overwrites:
  "server_endpoints (addEndpoint path r2 m2 (addEndpoint path r1 m1 srv)) path = Some (r2, m2)
   \<and> addEndpoint path r2 m2 (addEndpoint path r1 m1 srv) = addEndpoint path r2 m2 srv
   \<and> AddEndpoint path r2 s2 (AddEndpoint path r1 s1 srv) = AddEndpoint path r2 s2 srv
   \<and> run_sessions (addEndpoint path r2 m2 (addEndpoint path r1 m1 srv)) cache cs
         = run_sessions (addEndpoint path r2 m2 srv) cache cs
   \<and> (request_tokens request = (method, path, version) \<and> request_method method = m2
        \<and> (enable \<longrightarrow> cache method = None) \<and> getBody fs r2 = Inr (body, bl) \<longrightarrow>
        written (socket_ops (do_read
            (server_endpoints (addEndpoint path r2 m2 (addEndpoint path r1 m1 srv)))
            enable fs cache (Completed request) wr))
          = [OK body ''text/html''])
   \<and> (request_tokens request = (method, path, version) \<and> request_method method \<noteq> m2 \<longrightarrow>
        written (socket_ops (do_read
            (server_endpoints (addEndpoint path r2 m2 (addEndpoint path r1 m1 srv)))
            enable fs cache (Completed request) wr))
          = [NOT_OK NOT_OK_default_body])"
proof -
  let ?eps = "server_endpoints (addEndpoint path r2 m2 (addEndpoint path r1 m1 srv))"
  have look: "?eps path = Some (r2, m2)"
    by (simp add: addEndpoint_def)
  have served: "written (socket_ops (do_read ?eps enable fs cache (Completed request) wr))
          = [OK body ''text/html'']"
    if tok: "request_tokens request = (method, path, version)"
      and m: "request_method method = m2" and miss: "enable \<longrightarrow> cache method = None"
      and res: "getBody fs r2 = Inr (body, bl)"
  proof -
    from look m have reg: "?eps path = Some (r2, request_method method)"
      by simp
    show ?thesis
      unfolding do_read_miss [where eps = ?eps and path = path and cache = cache
          and enable = enable, OF tok reg miss res]
      by (simp add: written_do_write OK_default_content_type_def)
  qed
  have refused: "written (socket_ops (do_read ?eps enable fs cache (Completed request) wr))
          = [NOT_OK NOT_OK_default_body]"
    if tok: "request_tokens request = (method, path, version)"
      and m: "request_method method \<noteq> m2"
  proof -
    from look m have "?eps path = None \<or> (\<exists>src m. ?eps path = Some (src, m) \<and> request_method method \<noteq> m)"
      by simp
    from do_read_not_found [where eps = ?eps and path = path, OF tok this] show ?thesis
      by (simp add: written_do_write)
  qed
  from look served refused show ?thesis
    by (simp add: addEndpoint_twice AddEndpoint_def)
qed

theorem addEndpoint_overwrites_witness:
  "request_tokens (''POST /data HTTP/1.1'' @ CRLF @ CRLF) = (''POST'', ''/data'', ''HTTP/1.1'')
   \<and> request_method ''POST'' = POST
   \<and> getBody Map.empty ''New data!'' = Inr (''New data!'', [])
   \<and> written (socket_ops (do_read
         (server_endpoints (addEndpoint ''/data'' ''New data!'' POST
            (addEndpoint ''/data'' ''Some data!'' GET RESTAPIAPP)))
         True Map.empty Map.empty (Completed (''POST /data HTTP/1.1'' @ CRLF @ CRLF)) (Completed ())))
       = [OK ''New data!'' ''text/html'']
   \<and> request_tokens (''GET /data HTTP/1.1'' @ CRLF @ CRLF) = (''GET'', ''/data'', ''HTTP/1.1'')
   \<and> request_method ''GET'' \<noteq> POST
   \<and> written (socket_ops (do_read
         (server_endpoints (addEndpoint ''/data'' ''New data!'' POST
            (addEndpoint ''/data'' ''Some data!'' GET RESTAPIAPP)))
         True Map.empty Map.empty (Completed (''GET /data HTTP/1.1'' @ CRLF @ CRLF)) (Completed ())))
       = [NOT_OK NOT_OK_default_body]"
proof -
  have tokP: "request_tokens (''POST /data HTTP/1.1'' @ CRLF @ CRLF) = (''POST'', ''/data'', ''HTTP/1.1'')"
    by (simp add: parse_defs)
  have tokG: "request_tokens (''GET /data HTTP/1.1'' @ CRLF @ CRLF) = (''GET'', ''/data'', ''HTTP/1.1'')"
    by (simp add: parse_defs)
  have mP: "request_method ''POST'' = POST" and mG: "request_method ''GET'' \<noteq> POST"
    by (simp_all add: request_method_def)
  have miss: "True \<longrightarrow> (Map.empty :: CACHE) ''POST'' = None"
    by simp
  have body: "getBody Map.empty ''New data!'' = Inr (''New data!'', [])"
    by (simp add: getBody_def filePrefix_def)
  from addEndpoint_overwrites [where path = "''/data''" and ?r1.0 = "''Some data!''" and ?m1.0 = GET
      and ?r2.0 = "''New data!''" and ?m2.0 = POST and srv = RESTAPIAPP
      and request = "''POST /data HTTP/1.1'' @ CRLF @ CRLF" and version = "''HTTP/1.1''"
      and enable = True and cache = Map.empty and fs = Map.empty and wr = "Completed ()"
      and body = "''New data!''" and bl = "[]"]
    tokP mP miss body
  have 1: "written (socket_ops (do_read
         (server_endpoints (addEndpoint ''/data'' ''New data!'' POST
            (addEndpoint ''/data'' ''Some data!'' GET RESTAPIAPP)))
         True Map.empty Map.empty (Completed (''POST /data HTTP/1.1'' @ CRLF @ CRLF)) (Completed ())))
       = [OK ''New data!'' ''text/html'']"
    by blast
  from addEndpoint_overwrites [where path = "''/data''" and ?r1.0 = "''Some data!''" and ?m1.0 = GET
      and ?r2.0 = "''New data!''" and ?m2.0 = POST and srv = RESTAPIAPP
      and request = "''GET /data HTTP/1.1'' @ CRLF @ CRLF" and version = "''HTTP/1.1''"
      and enable = True and cache = Map.empty and fs = Map.empty and wr = "Completed ()"]
    tokG mG
  have 2: "written (socket_ops (do_read
         (server_endpoints (addEndpoint ''/data'' ''New data!'' POST
            (addEndpoint ''/data'' ''Some data!'' GET RESTAPIAPP)))
         True Map.empty Map.empty (Completed (''GET /data HTTP/1.1'' @ CRLF @ CRLF)) (Completed ())))
       = [NOT_OK NOT_OK_default_body]"
    by blast
  from tokP tokG mP mG body 1 2 show ?thesis
    by blast
qed

subsection \<open>One exchange per connection\<close>

lemma do_write_ops:
  "fst (do_write response wr) =
     (case wr of Completed u \<Rightarrow> [async_write response, shutdown_both]
      | Failed msg \<Rightarrow> [async_write response])"
  by (cases wr) (simp_all add: do_write_def)

lemma do_read_ops:
  "(thrown (do_read eps enable fs cache (Completed request) wr) = None
      \<and> (\<exists>response. socket_ops (do_read eps enable fs cache (Completed request) wr)
            = async_read_until # fst (do_write response wr)))
   \<or> (thrown (do_read eps enable fs cache (Completed request) wr) \<noteq> None
      \<and> socket_ops (do_read eps enable fs cache (Completed request) wr) = [async_read_until])"
proof -
  obtain tk pth ver where tok: "request_tokens request = (tk, pth, ver)"
    by (cases "request_tokens request")
  from tok show ?thesis
  proof (cases rule: do_read_cases [where eps = eps and enable = enable and cache = cache
        and fs = fs])
    case not_found
    show ?thesis
      unfolding do_read_not_found [where eps = eps and path = pth, OF tok not_found]
      by auto
  next
    case (hit src cached)
    show ?thesis
      unfolding do_read_hit [where eps = eps and path = pth and cache = cache, OF tok hit]
      by auto
  next
    case (miss src body bl)
    show ?thesis
      unfolding do_read_miss [where eps = eps and path = pth and cache = cache and enable = enable,
          OF tok miss]
      by auto
  next
    case (throws src e)
    show ?thesis
      unfolding do_read_throws [where eps = eps and path = pth and cache = cache and enable = enable,
          OF tok throws]
      by simp
  qed
qed

text \<open>
  Claim C8. A session issues one read, as its first operation on the socket, and at
  most one write. When the read and the write both complete without error, the session
  shuts the socket down in both directions right after the write and issues nothing
  more; in no case does a second read follow. (A read handler that is left by an
  exception has issued no write; the session's only operation is then its read.)
\<close>

theorem session_one_exchange:
  "count_list (socket_ops (do_read eps enable fs cache rd wr)) async_read_until = 1
   \<and> length (written (socket_ops (do_read eps enable fs cache rd wr))) \<le> 1
   \<and> (rd = Completed request \<and> wr = Completed ()
        \<and> thrown (do_read eps enable fs cache rd wr) = None \<longrightarrow>
        (\<exists>response. socket_ops (do_read eps enable fs cache rd wr)
           = [async_read_until, async_write response, shutdown_both]))
   \<and> (rd = Completed request \<and> wr = Failed wmsg
        \<and> thrown (do_read eps enable fs cache rd wr) = None \<longrightarrow>
        (\<exists>response. socket_ops (do_read eps enable fs cache rd wr)
           = [async_read_until, async_write response]))
   \<and> (rd = Failed rmsg \<longrightarrow>
        socket_ops (do_read eps enable fs cache rd wr) = [async_read_until])
   \<and> (thrown (do_read eps enable fs cache rd wr) \<noteq> None \<longrightarrow>
        socket_ops (do_read eps enable fs cache rd wr) = [async_read_until])"
proof (cases rd)
  case (Failed msg)
  then show ?thesis
    by (simp add: do_read_Failed)
next
  case (Completed req)
  from do_read_ops [of eps enable fs cache req wr] show ?thesis
  proof (elim disjE conjE exE)
    fix response
    assume "thrown (do_read eps enable fs cache (Completed req) wr) = None"
      and "socket_ops (do_read eps enable fs cache (Completed req) wr)
            = async_read_until # fst (do_write response wr)"
    then show ?thesis
      by (cases wr) (auto simp add: Completed do_write_ops)
  next
    assume "thrown (do_read eps enable fs cache (Completed req) wr) \<noteq> None"
      and "socket_ops (do_read eps enable fs cache (Completed req) wr) = [async_read_until]"
    then show ?thesis
      by (auto simp add: Completed)
  qed
qed

theorem session_one_exchange_witness:
  "socket_ops (do_read [''/data'' \<mapsto> (''Some data!'', GET)] True Map.empty Map.empty
         (Completed (''GET /data HTTP/1.1'' @ CRLF @ CRLF)) (Completed ()))
       = [async_read_until, async_write (OK ''Some data!'' ''text/html''), shutdown_both]
   \<and> socket_ops (do_read [''/data'' \<mapsto> (''Some data!'', GET)] True Map.empty Map.empty
         (Completed (''GET /data HTTP/1.1'' @ CRLF @ CRLF)) (Failed ''Broken pipe''))
       = [async_read_until, async_write (OK ''Some data!'' ''text/html'')]
   \<and> socket_ops (do_read [''/data'' \<mapsto> (''Some data!'', GET)] True Map.empty Map.empty
         (Failed ''End of file'') (Completed ()))
       = [async_read_until]
   \<and> thrown (do_read [''/data'' \<mapsto> (''@file:/var/www'', GET)] True
         [''/var/www'' \<mapsto> ReadThrows ''Is a directory''] Map.empty
         (Completed (''GET /data HTTP/1.1'' @ CRLF @ CRLF)) (Completed ()))
       = Some (ios_base_failure ''Is a directory'')
   \<and> socket_ops (do_read [''/data'' \<mapsto> (''@file:/var/www'', GET)] True
         [''/var/www'' \<mapsto> ReadThrows ''Is a directory''] Map.empty
         (Completed (''GET /data HTTP/1.1'' @ CRLF @ CRLF)) (Completed ()))
       = [async_read_until]"
proof -
  let ?eps = "[''/data'' \<mapsto> (''Some data!'', GET)]"
  let ?eps' = "[''/data'' \<mapsto> (''@file:/var/www'', GET)]"
  let ?fs' = "[''/var/www'' \<mapsto> ReadThrows ''Is a directory'']"
  let ?rq = "''GET /data HTTP/1.1'' @ CRLF @ CRLF"
  have tok: "request_tokens ?rq = (''GET'', ''/data'', ''HTTP/1.1'')"
    by (simp add: parse_defs)
  have reg: "?eps ''/data'' = Some (''Some data!'', request_method ''GET'')"
    by (simp add: request_method_def)
  have reg': "?eps' ''/data'' = Some (''@file:/var/www'', request_method ''GET'')"
    by (simp add: request_method_def)
  have miss: "True \<longrightarrow> (Map.empty :: CACHE) ''GET'' = None"
    by simp
  have body: "getBody Map.empty ''Some data!'' = Inr (''Some data!'', [])"
    by (simp add: getBody_def filePrefix_def)
  have body': "getBody ?fs' ''@file:/var/www'' = Inl (ios_base_failure ''Is a directory'')"
    by (simp add: getBody_def filePrefix_def readFileIntoString_def)
  note run = do_read_miss [where eps = ?eps and path = "''/data''" and cache = Map.empty
      and enable = True and fs = Map.empty, OF tok reg miss body]
  note run' = do_read_throws [where eps = ?eps' and path = "''/data''" and cache = Map.empty
      and enable = True and fs = ?fs' and wr = "Completed ()", OF tok reg' miss body']
  have w: "written (socket_ops (do_read ?eps True Map.empty Map.empty (Completed ?rq) wr))
      = [OK ''Some data!'' ''text/html'']" for wr
    unfolding run by (simp add: written_do_write OK_default_content_type_def)
  have t: "thrown (do_read ?eps True Map.empty Map.empty (Completed ?rq) wr) = None" for wr
    unfolding run by simp
  from session_one_exchange [where eps = ?eps and enable = True and fs = Map.empty
      and cache = Map.empty and rd = "Completed ?rq" and wr = "Completed ()" and request = ?rq]
    t [of "Completed ()"]
  obtain r1 where 1: "socket_ops (do_read ?eps True Map.empty Map.empty (Completed ?rq) (Completed ()))
       = [async_read_until, async_write r1, shutdown_both]"
    by blast
  then have "written (socket_ops (do_read ?eps True Map.empty Map.empty (Completed ?rq) (Completed ())))
       = [r1]"
    by simp
  with w have r1: "r1 = OK ''Some data!'' ''text/html''"
    by simp
  from session_one_exchange [where eps = ?eps and enable = True and fs = Map.empty
      and cache = Map.empty and rd = "Completed ?rq" and wr = "Failed ''Broken pipe''"
      and request = ?rq and wmsg = "''Broken pipe''"]
    t [of "Failed ''Broken pipe''"]
  obtain r2 where 2: "socket_ops (do_read ?eps True Map.empty Map.empty (Completed ?rq) (Failed ''Broken pipe''))
       = [async_read_until, async_write r2]"
    by blast
  then have "written (socket_ops (do_read ?eps True Map.empty Map.empty (Completed ?rq) (Failed ''Broken pipe'')))
       = [r2]"
    by simp
  with w have r2: "r2 = OK ''Some data!'' ''text/html''"
    by simp
  from session_one_exchange [where eps = ?eps and enable = True and fs = Map.empty
      and cache = Map.empty and rd = "Failed ''End of file''" and wr = "Completed ()"
      and rmsg = "''End of file''"]
  have 3: "socket_ops (do_read ?eps True Map.empty Map.empty (Failed ''End of file'') (Completed ()))
       = [async_read_until]"
    by blast
  have 4: "thrown (do_read ?eps' True ?fs' Map.empty (Completed ?rq) (Completed ()))
       = Some (ios_base_failure ''Is a directory'')"
    unfolding run' by simp
  with session_one_exchange [where eps = ?eps' and enable = True and fs = ?fs'
      and cache = Map.empty and rd = "Completed ?rq" and wr = "Completed ()"]
  have 5: "socket_ops (do_read ?eps' True ?fs' Map.empty (Completed ?rq) (Completed ()))
       = [async_read_until]"
    by simp
  from 1 2 3 4 5 r1 r2 show ?thesis
    by simp
qed

subsection \<open>The cache is written on one branch only\<close>

lemma cache_out_Failed: "cache_out (do_read eps enable fs cache (Failed msg) wr) = cache"
  by (simp add: do_read_Failed)

lemma do_read_disabled:
  "cache_out (do_read eps False fs cache rd wr) = cache
   \<and> socket_ops (do_read eps False fs cache rd wr) = socket_ops (do_read eps False fs cache2 rd wr)
   \<and> log_out (do_read eps False fs cache rd wr) = log_out (do_read eps False fs cache2 rd wr)"
  by (cases rd) (simp_all add: do_read_def Let_def split: prod.splits sum.splits)

text \<open>
  Claim C9. A request that is answered on the not-found branch (its path is not
  registered, or the method the session reads differs from the registered one) leaves
  the cache as it was. The cache changes only on the matched branch, with caching
  enabled and no entry under the request's method token, and then by exactly one new
  entry, a rendered \<open>OK\<close> response under that token; so a session that writes the
  not-found response changes nothing. With caching disabled the cache is neither
  written (it is returned unchanged) nor read (the socket operations and the log do not
  depend on it).
\<close>

theorem cache_frame:
  assumes tok: "request_tokens request = (method, path, version)"
  shows "((eps path = None \<or> (\<exists>src m. eps path = Some (src, m) \<and> request_method method \<noteq> m)) \<longrightarrow>
           cache_out (do_read eps enable fs cache (Completed request) wr) = cache)
       \<and> (cache_out (do_read eps enable fs cache (Completed request) wr) \<noteq> cache \<longrightarrow>
           enable \<and> cache method = None
           \<and> (\<exists>src body bl. eps path = Some (src, request_method method)
                 \<and> getBody fs src = Inr (body, bl)
                 \<and> cache_out (do_read eps enable fs cache (Completed request) wr)
                     = cache(method \<mapsto> OK body ''text/html'')))
       \<and> (written (socket_ops (do_read eps enable fs cache (Completed request) wr))
             = [NOT_OK NOT_OK_default_body] \<longrightarrow>
           cache_out (do_read eps enable fs cache (Completed request) wr) = cache)
       \<and> (\<not> enable \<longrightarrow>
           cache_out (do_read eps enable fs cache rd wr) = cache
           \<and> socket_ops (do_read eps enable fs cache rd wr)
               = socket_ops (do_read eps enable fs cache2 rd wr)
           \<and> log_out (do_read eps enable fs cache rd wr)
               = log_out (do_read eps enable fs cache2 rd wr))"
proof -
  have off: "\<not> enable \<longrightarrow>
           cache_out (do_read eps enable fs cache rd wr) = cache
           \<and> socket_ops (do_read eps enable fs cache rd wr)
               = socket_ops (do_read eps enable fs cache2 rd wr)
           \<and> log_out (do_read eps enable fs cache rd wr)
               = log_out (do_read eps enable fs cache2 rd wr)"
    using do_read_disabled [of eps fs cache rd wr cache2] by simp
  from tok have "((eps path = None \<or> (\<exists>src m. eps path = Some (src, m) \<and> request_method method \<noteq> m)) \<longrightarrow>
           cache_out (do_read eps enable fs cache (Completed request) wr) = cache)
       \<and> (cache_out (do_read eps enable fs cache (Completed request) wr) \<noteq> cache \<longrightarrow>
           enable \<and> cache method = None
           \<and> (\<exists>src body bl. eps path = Some (src, request_method method)
                 \<and> getBody fs src = Inr (body, bl)
                 \<and> cache_out (do_read eps enable fs cache (Completed request) wr)
                     = cache(method \<mapsto> OK body ''text/html'')))
       \<and> (written (socket_ops (do_read eps enable fs cache (Completed request) wr))
             = [NOT_OK NOT_OK_default_body] \<longrightarrow>
           cache_out (do_read eps enable fs cache (Completed request) wr) = cache)"
  proof (cases rule: do_read_cases [where eps = eps and enable = enable and cache = cache
        and fs = fs])
    case not_found
    from do_read_not_found [where eps = eps and path = path, OF tok not_found]
    show ?thesis
      by simp
  next
    case (hit src cached)
    from do_read_hit [where eps = eps and path = path and cache = cache, OF tok hit]
    show ?thesis
      by simp
  next
    case (miss src body bl)
    note r = do_read_miss [where eps = eps and path = path and cache = cache and enable = enable,
        OF tok miss]
    from miss show ?thesis
      by (auto simp add: r written_do_write OK_neq_NOT_OK OK_default_content_type_def)
  next
    case (throws src e)
    from do_read_throws [where eps = eps and path = path and cache = cache and enable = enable,
        OF tok throws]
    show ?thesis
      by simp
  qed
  with off show ?thesis
    by blast
qed

theorem cache_frame_witness:
  "request_tokens (''POST /data HTTP/1.1'' @ CRLF @ CRLF) = (''POST'', ''/data'', ''HTTP/1.1'')
   \<and> (\<exists>src m. [''/data'' \<mapsto> (''Some data!'', GET)] ''/data'' = Some (src, m)
         \<and> request_method ''POST'' \<noteq> m)
   \<and> written (socket_ops (do_read [''/data'' \<mapsto> (''Some data!'', GET)] True Map.empty Map.empty
         (Completed (''POST /data HTTP/1.1'' @ CRLF @ CRLF)) (Completed ())))
       = [NOT_OK NOT_OK_default_body]
   \<and> cache_out (do_read [''/data'' \<mapsto> (''Some data!'', GET)] True Map.empty Map.empty
         (Completed (''POST /data HTTP/1.1'' @ CRLF @ CRLF)) (Completed ()))
       = Map.empty
   \<and> request_tokens (''GET /data HTTP/1.1'' @ CRLF @ CRLF) = (''GET'', ''/data'', ''HTTP/1.1'')
   \<and> cache_out (do_read [''/data'' \<mapsto> (''Some data!'', GET)] True Map.empty Map.empty
         (Completed (''GET /data HTTP/1.1'' @ CRLF @ CRLF)) (Completed ()))
       \<noteq> Map.empty
   \<and> cache_out (do_read [''/data'' \<mapsto> (''Some data!'', GET)] True Map.empty Map.empty
         (Completed (''GET /data HTTP/1.1'' @ CRLF @ CRLF)) (Completed ()))
       = [''GET'' \<mapsto> OK ''Some data!'' ''text/html'']
   \<and> cache_out (do_read [''/data'' \<mapsto> (''Some data!'', GET)] False Map.empty
         [''GET'' \<mapsto> ''stale''] (Completed (''GET /data HTTP/1.1'' @ CRLF @ CRLF)) (Completed ()))
       = [''GET'' \<mapsto> ''stale'']"
proof -
  let ?eps = "[''/data'' \<mapsto> (''Some data!'', GET)]"
  let ?post = "''POST /data HTTP/1.1'' @ CRLF @ CRLF"
  let ?get = "''GET /data HTTP/1.1'' @ CRLF @ CRLF"
  have tokP: "request_tokens ?post = (''POST'', ''/data'', ''HTTP/1.1'')"
    by (simp add: parse_defs)
  have tokG: "request_tokens ?get = (''GET'', ''/data'', ''HTTP/1.1'')"
    by (simp add: parse_defs)
  have differs: "\<exists>src m. ?eps ''/data'' = Some (src, m) \<and> request_method ''POST'' \<noteq> m"
    by (simp add: request_method_def)
  have reg: "?eps ''/data'' = Some (''Some data!'', request_method ''GET'')"
    by (simp add: request_method_def)
  have body: "getBody Map.empty ''Some data!'' = Inr (''Some data!'', [])"
    by (simp add: getBody_def filePrefix_def)
  have miss: "True \<longrightarrow> (Map.empty :: CACHE) ''GET'' = None"
    by simp
  note nf = cache_frame [where eps = ?eps and path = "''/data''" and enable = True
      and fs = Map.empty and cache = Map.empty and wr = "Completed ()", OF tokP]
  note ms = cache_frame [where eps = ?eps and path = "''/data''" and enable = True
      and fs = Map.empty and cache = Map.empty and wr = "Completed ()", OF tokG]
  note off = cache_frame [where eps = ?eps and path = "''/data''" and enable = False
      and fs = Map.empty and cache = "[''GET'' \<mapsto> ''stale'']" and wr = "Completed ()"
      and rd = "Completed ?get", OF tokG]
  have w: "written (socket_ops (do_read ?eps True Map.empty Map.empty (Completed ?post) (Completed ())))
       = [NOT_OK NOT_OK_default_body]"
    unfolding do_read_not_found [where eps = ?eps and path = "''/data''", OF tokP disjI2 [OF differs]]
    by (simp add: written_do_write)
  from nf w have 1: "cache_out (do_read ?eps True Map.empty Map.empty (Completed ?post) (Completed ()))
       = Map.empty"
    by blast
  have 2: "cache_out (do_read ?eps True Map.empty Map.empty (Completed ?get) (Completed ()))
       \<noteq> Map.empty"
    unfolding do_read_miss [where eps = ?eps and path = "''/data''" and cache = Map.empty
        and enable = True, OF tokG reg miss body]
    by simp
  with ms obtain src b bl where src: "?eps ''/data'' = Some (src, request_method ''GET'')"
    and res: "getBody Map.empty src = Inr (b, bl)"
    and out: "cache_out (do_read ?eps True Map.empty Map.empty (Completed ?get) (Completed ()))
       = Map.empty(''GET'' \<mapsto> OK b ''text/html'')"
    by blast
  from src have "src = ''Some data!''"
    by simp
  with res body have "b = ''Some data!''"
    by simp
  with out have 3: "cache_out (do_read ?eps True Map.empty Map.empty (Completed ?get) (Completed ()))
       = [''GET'' \<mapsto> OK ''Some data!'' ''text/html'']"
    by simp
  from off have 4: "cache_out (do_read ?eps False Map.empty [''GET'' \<mapsto> ''stale'']
         (Completed ?get) (Completed ()))
       = [''GET'' \<mapsto> ''stale'']"
    by blast
  from tokP tokG differs w 1 2 3 4 show ?thesis
    by blast
qed

subsection \<open>Sequences of sessions\<close>

lemma run_sessions_Cons:
  assumes "thrown (do_read (server_endpoints srv) (enable_cache srv) (files c) cache
      (read_result c) (write_result c)) = None"
  shows "run_sessions srv cache (c # cs) =
     (do_read (server_endpoints srv) (enable_cache srv) (files c) cache (read_result c) (write_result c)
        # fst (run_sessions srv (cache_out (do_read (server_endpoints srv) (enable_cache srv)
                 (files c) cache (read_result c) (write_result c))) cs),
      snd (run_sessions srv (cache_out (do_read (server_endpoints srv) (enable_cache srv)
                 (files c) cache (read_result c) (write_result c))) cs))"
  using assms by (simp add: Let_def split_beta)

lemma run_sessions_Cons_thrown:
  assumes "thrown (do_read (server_endpoints srv) (enable_cache srv) (files c) cache
      (read_result c) (write_result c)) \<noteq> None"
  shows "run_sessions srv cache (c # cs) =
     ([do_read (server_endpoints srv) (enable_cache srv) (files c) cache (read_result c) (write_result c)],
      cache_out (do_read (server_endpoints srv) (enable_cache srv)
                 (files c) cache (read_result c) (write_result c)))"
  using assms by (simp add: Let_def split_beta del: not_None_eq)

lemma run_sessions_head_quiet:
  assumes "\<forall>r\<in>set (fst (run_sessions srv cache (c # cs))). thrown r = None"
  shows "thrown (do_read (server_endpoints srv) (enable_cache srv) (files c) cache
      (read_result c) (write_result c)) = None"
  using assms by (simp add: Let_def split_beta del: not_None_eq)

text \<open>As long as no handler throws, a run is the run of its parts, one after the other.\<close>

lemma run_sessions_append:
  assumes "\<forall>r\<in>set (fst (run_sessions srv cache xs)). thrown r = None"
  shows "run_sessions srv cache (xs @ ys) =
     (fst (run_sessions srv cache xs) @ fst (run_sessions srv (snd (run_sessions srv cache xs)) ys),
      snd (run_sessions srv (snd (run_sessions srv cache xs)) ys))"
  using assms
proof (induction xs arbitrary: cache)
  case Nil
  show ?case
    by simp
next
  case (Cons c xs)
  let ?r = "do_read (server_endpoints srv) (enable_cache srv) (files c) cache
      (read_result c) (write_result c)"
  from Cons.prems have t: "thrown ?r = None"
    by (rule run_sessions_head_quiet)
  from Cons.prems have "\<forall>r\<in>set (fst (run_sessions srv (cache_out ?r) xs)). thrown r = None"
    by (simp add: run_sessions_Cons [OF t] del: run_sessions.simps)
  from Cons.IH [OF this] show ?case
    by (simp add: run_sessions_Cons [OF t] del: run_sessions.simps)
qed

lemma length_run_sessions:
  assumes "\<forall>r\<in>set (fst (run_sessions srv cache cs)). thrown r = None"
  shows "length (fst (run_sessions srv cache cs)) = length cs"
  using assms
proof (induction cs arbitrary: cache)
  case Nil
  show ?case
    by simp
next
  case (Cons c cs)
  let ?r = "do_read (server_endpoints srv) (enable_cache srv) (files c) cache
      (read_result c) (write_result c)"
  from Cons.prems have t: "thrown ?r = None"
    by (rule run_sessions_head_quiet)
  from Cons.prems have "\<forall>r\<in>set (fst (run_sessions srv (cache_out ?r) cs)). thrown r = None"
    by (simp add: run_sessions_Cons [OF t] del: run_sessions.simps)
  from Cons.IH [OF this] show ?case
    by (simp add: run_sessions_Cons [OF t] del: run_sessions.simps)
qed

lemma cache_entry_kept:
  assumes "cache k = Some v"
  shows "cache_out (do_read eps enable fs cache rd wr) k = Some v"
proof (cases rd)
  case (Failed msg)
  with assms show ?thesis
    by (simp add: do_read_Failed)
next
  case (Completed request)
  obtain tk pth ver where tok: "request_tokens request = (tk, pth, ver)"
    by (cases "request_tokens request")
  from tok show ?thesis
  proof (cases rule: do_read_cases [where eps = eps and enable = enable and cache = cache
        and fs = fs])
    case not_found
    from do_read_not_found [where eps = eps and path = pth, OF tok not_found] assms Completed
    show ?thesis
      by simp
  next
    case (hit src cached)
    from do_read_hit [where eps = eps and path = pth and cache = cache, OF tok hit] assms Completed
    show ?thesis
      by simp
  next
    case (miss src body bl)
    note r = do_read_miss [where eps = eps and path = pth and cache = cache and enable = enable,
        OF tok miss]
    from miss assms have "enable \<longrightarrow> k \<noteq> tk"
      by auto
    with assms Completed show ?thesis
      by (simp add: r)
  next
    case (throws src e)
    from do_read_throws [where eps = eps and path = pth and cache = cache and enable = enable,
        OF tok throws] assms Completed
    show ?thesis
      by simp
  qed
qed

lemma run_sessions_entry_kept:
  "cache k = Some v \<Longrightarrow> snd (run_sessions srv cache cs) k = Some v"
proof (induction cs arbitrary: cache)
  case Nil
  then show ?case
    by simp
next
  case (Cons c cs)
  let ?r = "do_read (server_endpoints srv) (enable_cache srv) (files c) cache
      (read_result c) (write_result c)"
  from Cons.prems have kept: "cache_out ?r k = Some v"
    by (rule cache_entry_kept)
  show ?case
  proof (cases "thrown ?r = None")
    case True
    from kept have "snd (run_sessions srv (cache_out ?r) cs) k = Some v"
      by (rule Cons.IH)
    then show ?thesis
      by (simp add: run_sessions_Cons [OF True] del: run_sessions.simps)
  next
    case False
    from kept show ?thesis
      by (simp add: run_sessions_Cons_thrown [OF False] del: run_sessions.simps)
  qed
qed

lemma do_read_first_GET:
  assumes "request_tokens request = (''GET'', pth, ver)"
    and "eps pth = Some (src, GET)"
    and "cache ''GET'' = None"
    and "getBody fs src = Inr (body, bl)"
  shows "written (socket_ops (do_read eps True fs cache (Completed request) wr))
           = [OK body ''text/html'']
       \<and> cache_out (do_read eps True fs cache (Completed request) wr) ''GET''
           = Some (OK body ''text/html'')
       \<and> thrown (do_read eps True fs cache (Completed request) wr) = None"
proof -
  from assms(2) have reg: "eps pth = Some (src, request_method ''GET'')"
    by (simp add: request_method_def)
  from assms(3) have miss: "True \<longrightarrow> cache ''GET'' = None"
    by simp
  show ?thesis
    by (simp add: do_read_miss [where eps = eps and path = pth and cache = cache and enable = True,
          OF assms(1) reg miss assms(4)] written_do_write OK_default_content_type_def)
qed

lemma do_read_later_GET:
  assumes "request_tokens request = (''GET'', pth, ver)"
    and "eps pth = Some (src, GET)"
    and "cache ''GET'' = Some cached"
  shows "written (socket_ops (do_read eps True fs cache (Completed request) wr)) = [cached]
       \<and> thrown (do_read eps True fs cache (Completed request) wr) = None"
proof -
  from assms(2) have reg: "eps pth = Some (src, request_method ''GET'')"
    by (simp add: request_method_def)
  show ?thesis
    by (simp add: do_read_hit [where eps = eps and path = pth and cache = cache and enable = True,
          OF assms(1) reg TrueI assms(3)] written_do_write)
qed

text \<open>
  Claim C1. With caching enabled and no entry yet under \<open>GET\<close>, a first matching
  \<open>GET\<close> request that renders a response stores it under the key \<open>GET\<close>. Whatever
  sessions run in between, a session that then handles a matching \<open>GET\<close> request,
  for any registered path, answers it with that first response, byte for byte: neither
  the later endpoint's source nor the files of the later moment enter the answer. As
  long as the server runs (no handler in between has thrown), the later connection is
  served, and its session is that one.
\<close>

theorem method_keyed_cache:
  assumes "enable_cache srv"
    and "cache ''GET'' = None"
    and "read_result c1 = Completed request1"
    and "request_tokens request1 = (''GET'', path1, version1)"
    and "server_endpoints srv path1 = Some (src1, GET)"
    and "getBody (files c1) src1 = Inr (body1, bl1)"
    and "read_result c2 = Completed request2"
    and "request_tokens request2 = (''GET'', path2, version2)"
    and "server_endpoints srv path2 = Some (src2, GET)"
  shows "written (socket_ops (do_read (server_endpoints srv) (enable_cache srv) (files c2)
             (snd (run_sessions srv cache (c1 # cs))) (read_result c2) (write_result c2)))
           = [OK body1 ''text/html'']
       \<and> snd (run_sessions srv cache (c1 # cs)) ''GET'' = Some (OK body1 ''text/html'')
       \<and> ((\<forall>r\<in>set (fst (run_sessions srv cache (c1 # cs))). thrown r = None) \<longrightarrow>
           (\<exists>r1 mid r2 cache'.
              run_sessions srv cache (c1 # cs @ [c2]) = (r1 # mid @ [r2], cache')
            \<and> length mid = length cs
            \<and> written (socket_ops r1) = [OK body1 ''text/html'']
            \<and> written (socket_ops r2) = [OK body1 ''text/html'']
            \<and> thrown r2 = None
            \<and> cache' ''GET'' = Some (OK body1 ''text/html'')))"
proof -
  let ?eps = "server_endpoints srv"
  let ?A = "OK body1 ''text/html''"
  let ?r1 = "do_read ?eps True (files c1) cache (Completed request1) (write_result c1)"
  let ?mid = "run_sessions srv (cache_out ?r1) cs"
  let ?r2 = "do_read ?eps True (files c2) (snd ?mid) (Completed request2) (write_result c2)"
  from do_read_first_GET [where eps = ?eps and pth = path1 and cache = cache,
      OF assms(4,5,2,6)]
  have w1: "written (socket_ops ?r1) = [?A]" and k1: "cache_out ?r1 ''GET'' = Some ?A"
    and t1: "thrown ?r1 = None"
    by simp_all
  from k1 have k2: "snd ?mid ''GET'' = Some ?A"
    by (rule run_sessions_entry_kept)
  from do_read_later_GET [where eps = ?eps and pth = path2 and cache = "snd ?mid", OF assms(8,9) k2]
  have w2: "written (socket_ops ?r2) = [?A]" and t2: "thrown ?r2 = None"
    by simp_all
  from k2 have k3: "cache_out ?r2 ''GET'' = Some ?A"
    by (rule cache_entry_kept)
  have r1: "do_read ?eps (enable_cache srv) (files c1) cache (read_result c1) (write_result c1) = ?r1"
    by (simp add: assms(1,3))
  with t1 have "thrown (do_read ?eps (enable_cache srv) (files c1) cache (read_result c1)
      (write_result c1)) = None"
    by simp
  from run_sessions_Cons [OF this, of cs]
  have first: "run_sessions srv cache (c1 # cs) = (?r1 # fst ?mid, snd ?mid)"
    by (simp only: r1)
  have r2: "do_read ?eps (enable_cache srv) (files c2) (snd (run_sessions srv cache (c1 # cs)))
      (read_result c2) (write_result c2) = ?r2"
    by (simp only: first snd_conv) (simp add: assms(1,7))
  have later: "written (socket_ops (do_read ?eps (enable_cache srv) (files c2)
      (snd (run_sessions srv cache (c1 # cs))) (read_result c2) (write_result c2))) = [?A]"
    by (simp only: r2 w2)
  have kept: "snd (run_sessions srv cache (c1 # cs)) ''GET'' = Some ?A"
    by (simp only: first snd_conv k2)
  have served: "\<exists>r1 mid r2 cache'.
              run_sessions srv cache (c1 # cs @ [c2]) = (r1 # mid @ [r2], cache')
            \<and> length mid = length cs
            \<and> written (socket_ops r1) = [?A]
            \<and> written (socket_ops r2) = [?A]
            \<and> thrown r2 = None
            \<and> cache' ''GET'' = Some ?A"
    if running: "\<forall>r\<in>set (fst (run_sessions srv cache (c1 # cs))). thrown r = None"
  proof -
    from running have quiet: "\<forall>r\<in>set (fst ?mid). thrown r = None"
      by (simp only: first fst_conv) simp
    have "run_sessions srv cache ((c1 # cs) @ [c2])
        = (fst (run_sessions srv cache (c1 # cs))
             @ fst (run_sessions srv (snd (run_sessions srv cache (c1 # cs))) [c2]),
           snd (run_sessions srv (snd (run_sessions srv cache (c1 # cs))) [c2]))"
      by (rule run_sessions_append [OF running])
    moreover have "run_sessions srv (snd ?mid) [c2] = ([?r2], cache_out ?r2)"
      by (simp add: Let_def assms(1,7))
    ultimately have run: "run_sessions srv cache (c1 # cs @ [c2])
        = (?r1 # fst ?mid @ [?r2], cache_out ?r2)"
      by (simp only: first fst_conv snd_conv append_Cons)
    from run w1 w2 t2 k3 length_run_sessions [OF quiet] show ?thesis
      by blast
  qed
  from later kept served show ?thesis
    by blast
qed

theorem method_keyed_cache_witness:
  "enable_cache (AddEndpoint ''/b'' ''B'' ''GET'' (AddEndpoint ''/a'' ''A'' ''GET'' RESTAPIAPP))
   \<and> (Map.empty :: CACHE) ''GET'' = None
   \<and> request_tokens (''GET /a HTTP/1.1'' @ CRLF @ CRLF) = (''GET'', ''/a'', ''HTTP/1.1'')
   \<and> server_endpoints (AddEndpoint ''/b'' ''B'' ''GET'' (AddEndpoint ''/a'' ''A'' ''GET'' RESTAPIAPP)) ''/a''
        = Some (''A'', GET)
   \<and> request_tokens (''GET /b HTTP/1.1'' @ CRLF @ CRLF) = (''GET'', ''/b'', ''HTTP/1.1'')
   \<and> server_endpoints (AddEndpoint ''/b'' ''B'' ''GET'' (AddEndpoint ''/a'' ''A'' ''GET'' RESTAPIAPP)) ''/b''
        = Some (''B'', GET)
   \<and> (\<exists>r1 mid r2 cache'.
         run_sessions (AddEndpoint ''/b'' ''B'' ''GET'' (AddEndpoint ''/a'' ''A'' ''GET'' RESTAPIAPP)) Map.empty
           [\<lparr>files = Map.empty, read_result = Completed (''GET /a HTTP/1.1'' @ CRLF @ CRLF),
              write_result = Completed ()\<rparr>,
            \<lparr>files = Map.empty, read_result = Completed (''POST /a HTTP/1.1'' @ CRLF @ CRLF),
              write_result = Completed ()\<rparr>,
            \<lparr>files = Map.empty, read_result = Completed (''GET /b HTTP/1.1'' @ CRLF @ CRLF),
              write_result = Completed ()\<rparr>]
           = (r1 # mid @ [r2], cache')
         \<and> written (socket_ops r1) = [OK ''A'' ''text/html'']
         \<and> written (socket_ops r2) = [OK ''A'' ''text/html'']
         \<and> cache' ''GET'' = Some (OK ''A'' ''text/html''))"
proof -
  let ?srv = "AddEndpoint ''/b'' ''B'' ''GET'' (AddEndpoint ''/a'' ''A'' ''GET'' RESTAPIAPP)"
  let ?c1 = "\<lparr>files = Map.empty, read_result = Completed (''GET /a HTTP/1.1'' @ CRLF @ CRLF),
              write_result = Completed ()\<rparr>"
  let ?cm = "\<lparr>files = Map.empty, read_result = Completed (''POST /a HTTP/1.1'' @ CRLF @ CRLF),
              write_result = Completed ()\<rparr>"
  let ?c2 = "\<lparr>files = Map.empty, read_result = Completed (''GET /b HTTP/1.1'' @ CRLF @ CRLF),
              write_result = Completed ()\<rparr>"
  have en: "enable_cache ?srv"
    by (simp add: app_defs)
  have c0: "(Map.empty :: CACHE) ''GET'' = None"
    by simp
  have rd1: "read_result ?c1 = Completed (''GET /a HTTP/1.1'' @ CRLF @ CRLF)"
    by simp
  have tok1: "request_tokens (''GET /a HTTP/1.1'' @ CRLF @ CRLF) = (''GET'', ''/a'', ''HTTP/1.1'')"
    by (simp add: parse_defs)
  have reg1: "server_endpoints ?srv ''/a'' = Some (''A'', GET)"
    by (simp add: app_defs)
  have rd2: "read_result ?c2 = Completed (''GET /b HTTP/1.1'' @ CRLF @ CRLF)"
    by simp
  have tok2: "request_tokens (''GET /b HTTP/1.1'' @ CRLF @ CRLF) = (''GET'', ''/b'', ''HTTP/1.1'')"
    by (simp add: parse_defs)
  have reg2: "server_endpoints ?srv ''/b'' = Some (''B'', GET)"
    by (simp add: app_defs)
  have body: "getBody (files ?c1) ''A'' = Inr (''A'', [])"
    by (simp add: getBody_def filePrefix_def)
  have quiet: "\<forall>r\<in>set (fst (run_sessions ?srv Map.empty (?c1 # [?cm]))). thrown r = None"
    by (simp add: do_read_def Let_def parse_defs app_defs request_method_def getBody_def
        filePrefix_def do_write_def cache_insert_def)
  from method_keyed_cache [where srv = ?srv and cache = Map.empty and ?c1.0 = ?c1 and ?c2.0 = ?c2
      and cs = "[?cm]" and ?path1.0 = "''/a''" and ?path2.0 = "''/b''",
      OF en c0 rd1 tok1 reg1 body rd2 tok2 reg2] quiet
  obtain r1 mid r2 cache' where
    run: "run_sessions ?srv Map.empty (?c1 # [?cm] @ [?c2]) = (r1 # mid @ [r2], cache')"
    and w1: "written (socket_ops r1) = [OK ''A'' ''text/html'']"
    and w2: "written (socket_ops r2) = [OK ''A'' ''text/html'']"
    and k: "cache' ''GET'' = Some (OK ''A'' ''text/html'')"
    by blast
  from run have run': "run_sessions ?srv Map.empty [?c1, ?cm, ?c2] = (r1 # mid @ [r2], cache')"
    by (simp only: append_Cons append_Nil)
  from run' w1 w2 k en c0 tok1 reg1 tok2 reg2 show ?thesis
    by blast
qed

subsection \<open>The size of the cache\<close>






end
